theory Spec2Isabelle
  imports Complex_Main "HOL-Library.Multiset" "HOL-Library.Log_Nat"
begin

section \<open>Python strings\<close>

text \<open>
  Strings are \<^typ>\<open>string\<close>; the functions below are the ASCII behaviour of the Python
  string operations that \<^verbatim>\<open>ClusterOps\<close> (relevanceai/operations/cluster/cluster.py) uses:
  \<^verbatim>\<open>str(int)\<close>, \<^verbatim>\<open>str.lower\<close>, \<^verbatim>\<open>str.replace(c, "")\<close>, \<^verbatim>\<open>sub in s\<close> and the two
  \<^verbatim>\<open>split\<close> idioms of \<^verbatim>\<open>_get_model\<close>.
\<close>

definition digit_char :: "nat \<Rightarrow> char" where
  "digit_char d = ''0123456789'' ! d"

fun str_nat :: "nat \<Rightarrow> string" where
  "str_nat n = (if n < 10 then [digit_char n] else str_nat (n div 10) @ [digit_char (n mod 10)])"

declare str_nat.simps [simp del]

text \<open>\<^verbatim>\<open>str(i)\<close> for a Python int: decimal digits, a leading minus sign when negative.\<close>

definition str_int :: "int \<Rightarrow> string" where
  "str_int i = (if i < 0 then CHR ''-'' # str_nat (nat (- i)) else str_nat (nat i))"

text \<open>The number a string of digits denotes, for the proof that \<open>str_int\<close> is injective.\<close>

definition digit_val :: "char \<Rightarrow> nat" where
  "digit_val c = (of_char c :: nat) - 48"

definition digits_val :: "string \<Rightarrow> nat" where
  "digits_val s = foldl (\<lambda>a c. 10 * a + digit_val c) 0 s"

definition lower_char :: "char \<Rightarrow> char" where
  "lower_char c =
     (case map_of (zip ''ABCDEFGHIJKLMNOPQRSTUVWXYZ'' ''abcdefghijklmnopqrstuvwxyz'') c of
        Some l \<Rightarrow> l
      | None \<Rightarrow> c)"

text \<open>\<^verbatim>\<open>s.lower()\<close>.\<close>

definition lower :: "string \<Rightarrow> string" where
  "lower s = map lower_char s"

text \<open>\<^verbatim>\<open>s.replace(c, "")\<close> for a one-character \<^verbatim>\<open>c\<close>.\<close>

definition remove_char :: "char \<Rightarrow> string \<Rightarrow> string" where
  "remove_char c s = filter (\<lambda>x. x \<noteq> c) s"

fun starts_with :: "string \<Rightarrow> string \<Rightarrow> bool" where
  "starts_with [] s = True"
| "starts_with (p # ps) [] = False"
| "starts_with (p # ps) (c # cs) = (p = c \<and> starts_with ps cs)"

text \<open>\<^verbatim>\<open>sub in s\<close>.\<close>

fun contains :: "string \<Rightarrow> string \<Rightarrow> bool" where
  "contains sub [] = (sub = [])"
| "contains sub (c # cs) = (starts_with sub (c # cs) \<or> contains sub cs)"

text \<open>\<^verbatim>\<open>s.split(".")[-1]\<close>: what follows the last dot, all of \<^verbatim>\<open>s\<close> when it has none.\<close>

definition after_last_dot :: "string \<Rightarrow> string" where
  "after_last_dot s = rev (takeWhile (\<lambda>c. c \<noteq> CHR ''.'') (rev s))"

text \<open>\<^verbatim>\<open>s.split(sep)[0]\<close>: what precedes the first occurrence of \<^verbatim>\<open>sep\<close>.\<close>

fun before_sep :: "string \<Rightarrow> string \<Rightarrow> string" where
  "before_sep sep [] = []"
| "before_sep sep (c # cs) = (if starts_with sep (c # cs) then [] else c # before_sep sep cs)"

section \<open>LabelFormatter: \<^verbatim>\<open>ClusterOps._format_labels\<close>\<close>

text \<open>
  A label array is what the model returns: a one-dimensional integer array, or a
  two-dimensional one (the hdbscan branch reshapes to a column). \<^verbatim>\<open>shape[0]\<close> is the
  length of the outer axis; \<^verbatim>\<open>flatten().tolist()\<close> lists the entries row by row.
\<close>

datatype ndarray_labels = Labels1D "int list" | Labels2D "int list list"

fun shape0 :: "ndarray_labels \<Rightarrow> nat" where
  "shape0 (Labels1D xs) = length xs"
| "shape0 (Labels2D rows) = length rows"

fun flatten_tolist :: "ndarray_labels \<Rightarrow> int list" where
  "flatten_tolist (Labels1D xs) = xs"
| "flatten_tolist (Labels2D rows) = concat rows"

text \<open>
  \<^verbatim>\<open>_format_labels\<close> reads \<^verbatim>\<open>self.outlier_value\<close> and \<^verbatim>\<open>self.outlier_label\<close> only; they
  are its first two arguments here.
  \<^verbatim>\<open>
    labels = labels.flatten().tolist()
    cluster_labels = [
        f"cluster-{str(label)}" if label != self.outlier_value else self.outlier_label
        for label in labels ]
  \<close>
\<close>

definition format_label :: "int \<Rightarrow> string \<Rightarrow> int \<Rightarrow> string" where
  "format_label outlier_val outlier_lab label =
     (if label \<noteq> outlier_val then ''cluster-'' @ str_int label else outlier_lab)"

definition format_labels :: "int \<Rightarrow> string \<Rightarrow> ndarray_labels \<Rightarrow> string list" where
  "format_labels outlier_val outlier_lab labels =
     map (format_label outlier_val outlier_lab) (flatten_tolist labels)"

section \<open>float64 arithmetic\<close>

text \<open>
  Vector components are float64 numbers. A finite float64 is the rational it denotes;
  \<open>fl\<close> rounds a rational to the nearest float64 (53-bit significand, ties to even,
  gradual underflow below \<open>2\<^sup>-\<^sup>1\<^sup>0\<^sup>2\<^sup>2\<close>), which is what IEEE 754 addition and division return
  on finite operands. Infinities and NaN are not represented: results stay below
  \<open>2\<^sup>1\<^sup>0\<^sup>2\<^sup>4\<close> in magnitude in everything evaluated here.
\<close>

type_synonym float64 = rat

definition pow2 :: "int \<Rightarrow> rat" where
  "pow2 e = (if 0 \<le> e then 2 ^ nat e else 1 / 2 ^ nat (- e))"

text \<open>\<open>\<lfloor>log\<^sub>2 a\<rfloor>\<close> for a positive rational \<open>a\<close>.\<close>

definition ilog2 :: "rat \<Rightarrow> int" where
  "ilog2 a = (case quotient_of a of (p, q) \<Rightarrow>
     (let e0 = bitlen p - bitlen q in if pow2 e0 \<le> a then e0 else e0 - 1))"

definition round_half_even :: "rat \<Rightarrow> int" where
  "round_half_even x =
     (let f = \<lfloor>x\<rfloor>; d = x - of_int f
      in if d < 1 / 2 then f else if 1 / 2 < d then f + 1 else if even f then f else f + 1)"

text \<open>
  Rounding to a binary format with \<open>p\<close> significand bits and least normal exponent
  \<open>emin\<close>: float64 is \<open>p = 53\<close>, \<open>emin = -1022\<close>; float32 is \<open>p = 24\<close>, \<open>emin = -126\<close>.
\<close>

definition round_to :: "nat \<Rightarrow> int \<Rightarrow> rat \<Rightarrow> rat" where
  "round_to p emin x =
     (if x = 0 then 0
      else let a = \<bar>x\<bar>; u = pow2 (max (ilog2 a) emin - (int p - 1))
           in sgn x * of_int (round_half_even (a / u)) * u)"

definition fl :: "rat \<Rightarrow> float64" where
  "fl x = round_to 53 (- 1022) x"

text \<open>\<^verbatim>\<open>astype("float32")\<close> on one component.\<close>

definition fl32 :: "float64 \<Rightarrow> float64" where
  "fl32 x = round_to 24 (- 126) x"

definition fadd :: "float64 \<Rightarrow> float64 \<Rightarrow> float64" where
  "fadd x y = fl (x + y)"

definition fdiv :: "float64 \<Rightarrow> float64 \<Rightarrow> float64" where
  "fdiv x y = fl (x / y)"

section \<open>CentroidComputer: \<^verbatim>\<open>ClusterOps._get_centroid_documents\<close>\<close>

type_synonym vector = "float64 list"

text \<open>The record \<^verbatim>\<open>dict(_id=centroid, centroid_vector=centroid_vector)\<close>.\<close>

record centroid_document =
  doc_id :: string
  centroid_vector :: vector

text \<open>
  The dictionary \<^verbatim>\<open>centroids\<close> maps a label to the list of its vectors. Python
  dictionaries keep insertion order, and the second loop reads \<^verbatim>\<open>centroids.items()\<close>
  in that order, so the dictionary is an association list. One iteration of the
  first loop:
  \<^verbatim>\<open>
    if label not in centroids:
        centroids[label] = []
    centroids[label].append(vector)
  \<close>
\<close>

fun centroids_append ::
  "(string \<times> vector list) list \<Rightarrow> string \<Rightarrow> vector \<Rightarrow> (string \<times> vector list) list" where
  "centroids_append [] label v = [(label, [v])]"
| "centroids_append ((k, vs) # rest) label v =
     (if k = label then (k, vs @ [v]) # rest else (k, vs) # centroids_append rest label v)"

text \<open>\<^verbatim>\<open>for label, vector in zip(labels, vectors.tolist())\<close>: \<^verbatim>\<open>zip\<close> stops at the shorter.\<close>

definition group_by_label :: "string list \<Rightarrow> vector list \<Rightarrow> (string \<times> vector list) list" where
  "group_by_label labels vectors =
     foldl (\<lambda>centroids (label, v). centroids_append centroids label v) [] (zip labels vectors)"

text \<open>
  \<^verbatim>\<open>np.array(vectors).mean(0).tolist()\<close> on the rows of one group: numpy adds the rows
  along axis 0 one after the other, component by component, in float64, and divides
  each sum by the number of rows. A group is never empty (the empty case is here
  only to make the function total).
\<close>

definition np_mean0 :: "vector list \<Rightarrow> vector" where
  "np_mean0 rows =
     (case rows of
        [] \<Rightarrow> []
      | r # rs \<Rightarrow> map (\<lambda>s. fdiv s (of_nat (length rows))) (foldl (map2 fadd) r rs))"

definition get_centroid_documents :: "vector list \<Rightarrow> string list \<Rightarrow> centroid_document list" where
  "get_centroid_documents vectors labels =
     map (\<lambda>(centroid, vs). \<lparr>doc_id = centroid, centroid_vector = np_mean0 vs\<rparr>)
       (group_by_label labels vectors)"

text \<open>
  For stating the properties: the vectors paired with a label, in input order, and
  the float64 mean of a sequence of numbers (sum from left to right, then divide).
\<close>

definition members :: "(string \<times> vector) list \<Rightarrow> string \<Rightarrow> vector list" where
  "members pairs label = map snd (filter (\<lambda>p. fst p = label) pairs)"


text \<open>The body of the first loop as a function of the dictionary and the pair.\<close>

definition group_step ::
  "(string \<times> vector list) list \<Rightarrow> string \<times> vector \<Rightarrow> (string \<times> vector list) list" where
  "group_step = (\<lambda>centroids (label, v). centroids_append centroids label v)"

section \<open>Errors, Python values, models\<close>

text \<open>
  The exceptions that the modelled code raises or lets through. \<open>LibraryError\<close> is
  whatever a third-party constructor or model raises.
\<close>

datatype error =
    ValueError string
  | AttributeError string
  | IndexError
  | UnboundLocalError string
  | LibraryError string

text \<open>The values an \<^verbatim>\<open>n_clusters\<close> or \<^verbatim>\<open>k\<close> attribute holds, and \<^verbatim>\<open>str\<close> on them.\<close>

datatype pyval = PyNone | PyInt int

fun str_pyval :: "pyval \<Rightarrow> string" where
  "str_pyval PyNone = ''None''"
| "str_pyval (PyInt i) = str_int i"

text \<open>\<^verbatim>\<open>d[k] = v\<close> on an insertion-ordered dictionary.\<close>

fun dict_set :: "('k \<times> 'v) list \<Rightarrow> 'k \<Rightarrow> 'v \<Rightarrow> ('k \<times> 'v) list" where
  "dict_set [] k v = [(k, v)]"
| "dict_set ((k', v') # rest) k v =
     (if k' = k then (k', v) # rest else (k', v') # dict_set rest k v)"

type_synonym config = "(string \<times> pyval) list"

text \<open>What a model hands back as labels: a numpy array, or something else.\<close>

datatype model_out = NdArray ndarray_labels | NotNdArray

text \<open>
  A model object, as far as \<^verbatim>\<open>ClusterOps\<close> looks at it: the text of its class
  (\<^verbatim>\<open>str(model.__class__)\<close>), its \<^verbatim>\<open>__name__\<close>, \<^verbatim>\<open>n_clusters\<close> and \<^verbatim>\<open>k\<close> attributes
  (\<open>None\<close> when \<^verbatim>\<open>hasattr\<close> is false), and the four ways it is run on the vectors:
  \<^verbatim>\<open>fit_predict(vectors)\<close>; \<^verbatim>\<open>fit(vectors)\<close> followed by reading \<^verbatim>\<open>labels_\<close>;
  \<^verbatim>\<open>train(vectors)\<close> followed by \<^verbatim>\<open>assign(vectors)[1]\<close>; and the call
  \<^verbatim>\<open>np.array(model(vectors))\<close>. Each is a function of the third-party library, so it
  is a field of the object; a missing method is a function that returns
  \<open>AttributeError\<close>.
\<close>

record model_obj =
  class_str :: string
  dunder_name :: "string option"
  attr_n_clusters :: "pyval option"
  attr_k :: "pyval option"
  m_fit_predict :: "vector list \<Rightarrow> error + model_out"
  m_fit_labels :: "vector list \<Rightarrow> error + model_out"
  m_train_assign :: "vector list \<Rightarrow> error + model_out"
  m_call :: "vector list \<Rightarrow> error + ndarray_labels"

text \<open>The \<^verbatim>\<open>model\<close> argument and attribute: a string or an object.\<close>

datatype model_val = StrModel string | ObjModel model_obj

fun isinstance_str :: "model_val \<Rightarrow> bool" where
  "isinstance_str (StrModel s) = True"
| "isinstance_str (ObjModel m) = False"

text \<open>\<^verbatim>\<open>str(model.__class__)\<close>.\<close>

fun class_of :: "model_val \<Rightarrow> string" where
  "class_of (StrModel s) = ''<class 'str'>''"
| "class_of (ObjModel m) = class_str m"

fun hasattr_n_clusters :: "model_val \<Rightarrow> pyval option" where
  "hasattr_n_clusters (StrModel s) = None"
| "hasattr_n_clusters (ObjModel m) = attr_n_clusters m"

fun hasattr_k :: "model_val \<Rightarrow> pyval option" where
  "hasattr_k (StrModel s) = None"
| "hasattr_k (ObjModel m) = attr_k m"

section \<open>ModelAdapter: \<^verbatim>\<open>ClusterOps._get_model\<close>, \<^verbatim>\<open>_get_package\<close>, \<^verbatim>\<open>_get_alias\<close>\<close>

text \<open>
  The third-party constructors (\<^verbatim>\<open>KMeans(**self.config)\<close> and the others) are the
  parameter \<open>lib\<close>: the imported name and the configuration give an object or an
  error. \<^verbatim>\<open>_get_model\<close> returns the model; it also assigns \<^verbatim>\<open>self.model_name\<close> and,
  for an object, \<^verbatim>\<open>self.package\<close>: these are the second and third components of the
  result (the third is \<open>None\<close> when \<^verbatim>\<open>package\<close> is left unset).

  The chain of comparisons is the source's, in its order, on the normalised name
  \<^verbatim>\<open>model.lower().replace(" ", "").replace("_", "")\<close>. It has no final \<^verbatim>\<open>else\<close>: the
  \<^verbatim>\<open>else: raise ValueError("ModelNotSupported")\<close> of the source belongs to the second
  \<^verbatim>\<open>if isinstance(model, str)\<close>, which a string always passes.
\<close>

type_synonym library = "string \<Rightarrow> config \<Rightarrow> error + model_obj"

definition construct :: "library \<Rightarrow> string \<Rightarrow> config \<Rightarrow> string \<Rightarrow> error + model_val \<times> string \<times> string option" where
  "construct lib name cfg model_name =
     (case lib name cfg of Inl e \<Rightarrow> Inl e | Inr m \<Rightarrow> Inr (ObjModel m, model_name, None))"

definition get_model ::
  "library \<Rightarrow> config \<Rightarrow> model_val \<Rightarrow> error + model_val \<times> string \<times> string option" where
  "get_model lib cfg model_arg =
     (case model_arg of
        ObjModel m \<Rightarrow>
          Inr (ObjModel m, before_sep [CHR 0x27, CHR ''>''] (after_last_dot (class_str m)), Some ''custom'')
      | StrModel s \<Rightarrow>
          (let model = remove_char CHR ''_'' (remove_char CHR '' '' (lower s)) in
           if isinstance_str (StrModel model) then
             if model = ''affinitypropagation'' then
               construct lib ''sklearn.cluster.AffinityPropagation'' cfg model
             else if model = ''agglomerativeclustering'' then
               construct lib ''sklearn.cluster.AgglomerativeClustering'' cfg model
             else if model = ''birch'' then construct lib ''sklearn.cluster.Birch'' cfg model
             else if model = ''dbscan'' then construct lib ''sklearn.cluster.DBSCAN'' cfg model
             else if model = ''optics'' then construct lib ''sklearn.cluster.OPTICS'' cfg model
             else if model = ''kmeans'' then construct lib ''sklearn.cluster.KMeans'' cfg model
             else if model = ''featureagglomeration'' then
               construct lib ''sklearn.cluster.FeatureAgglomeration'' cfg model
             else if model = ''meanshift'' then construct lib ''sklearn.cluster.MeanShift'' cfg model
             else if model = ''minibatchkmeans'' then
               construct lib ''sklearn.cluster.MiniBatchKMeans'' cfg model
             else if model = ''spectralclustering'' then
               construct lib ''sklearn.cluster.SpectralClustering'' cfg model
             else if model = ''spectralbiclustering'' then
               construct lib ''sklearn.cluster.SpectralBiclustering'' cfg model
             else if model = ''spectralcoclustering'' then
               construct lib ''sklearn.cluster.SpectralCoclustering'' cfg model
             else if model = ''hdbscan'' then construct lib ''hdbscan.HDBSCAN'' cfg model
             else if model = ''community_detection'' then
               construct lib ''sentence_transformers.util.community_detection'' [] model
             else if contains ''faiss'' model then construct lib ''faiss.Kmeans'' cfg model
             else Inr (StrModel model, model, None)
           else Inl (ValueError ''ModelNotSupported'')))"

text \<open>
  \<^verbatim>\<open>_get_package\<close>: the chain of substring tests on the class text, or on
  \<^verbatim>\<open>model.__name__\<close> when the class text contains \<^verbatim>\<open>"function"\<close>.
\<close>

definition get_package :: "model_val \<Rightarrow> error + string" where
  "get_package model =
     (case (if contains ''function'' (class_of model)
            then (case model of
                    StrModel s \<Rightarrow> Inl (AttributeError ''__name__'')
                  | ObjModel m \<Rightarrow>
                      (case dunder_name m of
                         None \<Rightarrow> Inl (AttributeError ''__name__'')
                       | Some n \<Rightarrow> Inr n))
            else Inr (class_of model)) of
        Inl e \<Rightarrow> Inl e
      | Inr model_name \<Rightarrow>
          Inr (if contains ''sklearn'' model_name then ''sklearn''
               else if contains ''faiss'' model_name then ''faiss''
               else if contains ''hdbscan'' model_name then ''hdbscan''
               else if contains ''community_detection'' model_name then ''sentence-transformers''
               else ''custom''))"

text \<open>
  \<^verbatim>\<open>_get_alias\<close> reads \<^verbatim>\<open>self.model\<close>, \<^verbatim>\<open>self.model_name\<close> and \<^verbatim>\<open>self.n_clusters\<close>,
  which are its first three arguments here (it runs inside \<^verbatim>\<open>__init__\<close>, before the
  object is complete).
\<close>

definition get_alias :: "model_val \<Rightarrow> string \<Rightarrow> pyval \<Rightarrow> string option \<Rightarrow> string" where
  "get_alias model model_name self_n_clusters alias_arg =
     lower
       (case alias_arg of
          Some a \<Rightarrow> a
        | None \<Rightarrow>
            (case hasattr_n_clusters model of
               Some model_n \<Rightarrow>
                 model_name @ ''-'' @
                   str_pyval (if self_n_clusters \<noteq> PyNone then self_n_clusters else model_n)
             | None \<Rightarrow>
                 (case hasattr_k model of
                    Some model_k \<Rightarrow>
                      model_name @ ''-'' @
                        str_pyval (if self_n_clusters \<noteq> PyNone then self_n_clusters else model_k)
                  | None \<Rightarrow> model_name)))"

section \<open>The \<^verbatim>\<open>ClusterOps\<close> object\<close>

text \<open>The attributes of the object (\<open>alias'\<close> is \<^verbatim>\<open>self.alias\<close>).\<close>

record cluster_ops =
  vector_field :: "string option"
  vector_fields :: "string list option"
  config :: config
  model_name :: string
  model :: model_val
  package :: string
  n_clusters :: pyval
  alias' :: string
  outlier_value :: int
  outlier_label :: string
  dataset_id :: "string option"

text \<open>
  \<^verbatim>\<open>ClusterOps.__init__\<close>. The arguments are those of the source in its order, after
  the library; \<^verbatim>\<open>credentials\<close> and \<^verbatim>\<open>**kwargs\<close> only reach the base class, whose
  source is not part of this development.
\<close>

definition init ::
  "library \<Rightarrow> model_val \<Rightarrow> string list option \<Rightarrow> string option \<Rightarrow> string option \<Rightarrow>
   int option \<Rightarrow> config option \<Rightarrow> int \<Rightarrow> string \<Rightarrow> error + cluster_ops" where
  "init lib model_arg vector_fields_arg alias_arg dataset_id_arg n_clusters_arg cluster_config
      outlier_value_arg outlier_label_arg =
     (case (case vector_fields_arg of
              None \<Rightarrow> Inr None
            | Some [] \<Rightarrow> Inl IndexError
            | Some (f # fs) \<Rightarrow> Inr (Some f)) of
        Inl e \<Rightarrow> Inl e
      | Inr vf \<Rightarrow>
          (let cfg0 = (case cluster_config of None \<Rightarrow> [] | Some c \<Rightarrow> c);
               cfg = (case n_clusters_arg of
                        None \<Rightarrow> cfg0
                      | Some n \<Rightarrow> dict_set cfg0 ''n_clusters'' (PyInt n))
           in case get_model lib cfg model_arg of
                Inl e \<Rightarrow> Inl e
              | Inr (m, name, pkg) \<Rightarrow>
                  (case (case pkg of Some p \<Rightarrow> Inr p | None \<Rightarrow> get_package m) of
                     Inl e \<Rightarrow> Inl e
                   | Inr p \<Rightarrow>
                       (let n = (case hasattr_n_clusters m of
                                   Some model_n \<Rightarrow> model_n
                                 | None \<Rightarrow>
                                     (case n_clusters_arg of
                                        None \<Rightarrow> PyNone
                                      | Some k \<Rightarrow> PyInt k))
                        in Inr \<lparr>vector_field = vf, vector_fields = vector_fields_arg,
                                 config = cfg, model_name = name, model = m, package = p,
                                 n_clusters = n, alias' = get_alias m name n alias_arg,
                                 outlier_value = outlier_value_arg,
                                 outlier_label = outlier_label_arg,
                                 dataset_id = dataset_id_arg\<rparr>))))"

section \<open>Documents\<close>

text \<open>
  Modelled from the spec: \<^verbatim>\<open>is_field\<close>, \<^verbatim>\<open>get_field\<close> and
  \<^verbatim>\<open>set_field_across_documents\<close> are methods that \<^verbatim>\<open>ClusterOps\<close> inherits from the
  document utilities of the package, whose source is not among the files under
  verification. The spec says: a Document is a mapping from field name to value, with
  vector fields addressed by name (section 3); vectors are extracted for the documents
  that contain the field (4.4, step 3); the canonical label is attached to each
  document under a path (4.4, step 6). So a document is an insertion-ordered
  dictionary from the whole field path to a value, \<open>is_field\<close> is membership,
  \<open>get_field\<close> is lookup, and \<open>set_field_across_documents field values docs\<close> stores
  \<open>values[i]\<close> under \<open>field\<close> in \<open>docs[i]\<close> for every document, in order, as its call
  \<^verbatim>\<open>set_field_across_documents(field=cluster_field, values=labels, docs=documents)\<close>
  passes them. When the values run out before the documents do, \<open>values[i]\<close> is an
  index error.
\<close>

datatype field_value = Vec vector | Str string

type_synonym document = "(string \<times> field_value) list"

definition get_field :: "string \<Rightarrow> document \<Rightarrow> field_value option" where
  "get_field field doc = map_of doc field"

definition is_field :: "string \<Rightarrow> document \<Rightarrow> bool" where
  "is_field field doc = (get_field field doc \<noteq> None)"

fun set_field_across_documents ::
  "string \<Rightarrow> string list \<Rightarrow> document list \<Rightarrow> error + document list" where
  "set_field_across_documents field vals [] = Inr []"
| "set_field_across_documents field [] (d # ds) = Inl IndexError"
| "set_field_across_documents field (v # vs) (d # ds) =
     (case set_field_across_documents field vs ds of
        Inl e \<Rightarrow> Inl e
      | Inr ds' \<Rightarrow> Inr (dict_set d field (Str v) # ds'))"

text \<open>
  \<^verbatim>\<open>np.array([...])\<close> on the extracted field values gives the matrix of vectors when
  they are numeric vectors of one length (no vector at all gives the empty array,
  whose \<^verbatim>\<open>shape[0]\<close> is 0). Anything else does not make a float matrix; numpy raises
  \<^verbatim>\<open>ValueError\<close> on ragged input.
\<close>

fun as_vectors :: "field_value list \<Rightarrow> vector list option" where
  "as_vectors [] = Some []"
| "as_vectors (Vec v # xs) = map_option ((#) v) (as_vectors xs)"
| "as_vectors (Str s # xs) = None"

definition np_array :: "field_value list \<Rightarrow> error + vector list" where
  "np_array xs =
     (case as_vectors xs of
        None \<Rightarrow> Inl (ValueError ''inhomogeneous shape'')
      | Some [] \<Rightarrow> Inr []
      | Some (v # vs) \<Rightarrow>
          (if \<forall>w\<in>set vs. length w = length v then Inr (v # vs)
           else Inl (ValueError ''inhomogeneous shape'')))"

section \<open>ClusterOrchestrator: \<^verbatim>\<open>ClusterOps._fit_predict\<close> and \<^verbatim>\<open>operate\<close>\<close>

text \<open>\<^verbatim>\<open>labels.reshape(-1, 1)\<close>: one column.\<close>

definition reshape_column :: "ndarray_labels \<Rightarrow> ndarray_labels" where
  "reshape_column a = Labels2D (map (\<lambda>x. [x]) (flatten_tolist a))"

text \<open>
  Lines 279 to 302 of the source: the \<^verbatim>\<open>if\<close>/\<^verbatim>\<open>elif\<close> chain on \<^verbatim>\<open>self.package\<close> that
  runs the model. It yields the vectors (the faiss branch replaces them by their
  float32 values) and the labels. The chain has no \<^verbatim>\<open>else\<close>: with any other package
  \<^verbatim>\<open>labels\<close> is unbound at its first use.
\<close>

definition run_model ::
  "cluster_ops \<Rightarrow> vector list \<Rightarrow> error + vector list \<times> model_out" where
  "run_model self vectors =
     (case model self of
        StrModel s \<Rightarrow>
          (if package self = ''sklearn'' then Inl (AttributeError ''fit_predict'')
           else if package self = ''hdbscan'' then Inl (AttributeError ''fit'')
           else if package self = ''faiss'' then Inl (AttributeError ''train'')
           else if package self = ''sentencetransformers'' then Inl (AttributeError ''__call__'')
           else if package self = ''custom'' then Inl (AttributeError ''fit_predict'')
           else Inl (UnboundLocalError ''labels''))
      | ObjModel m \<Rightarrow>
          (if package self = ''sklearn'' then
             (case m_fit_predict m vectors of
                Inl e \<Rightarrow> Inl e
              | Inr labels \<Rightarrow> Inr (vectors, labels))
           else if package self = ''hdbscan'' then
             (case m_fit_labels m vectors of
                Inl e \<Rightarrow> Inl e
              | Inr NotNdArray \<Rightarrow> Inl (AttributeError ''reshape'')
              | Inr (NdArray a) \<Rightarrow> Inr (vectors, NdArray (reshape_column a)))
           else if package self = ''faiss'' then
             (let vectors32 = map (map fl32) vectors
              in case m_train_assign m vectors32 of
                   Inl e \<Rightarrow> Inl e
                 | Inr labels \<Rightarrow> Inr (vectors32, labels))
           else if package self = ''sentencetransformers'' then
             (case m_call m vectors of
                Inl e \<Rightarrow> Inl e
              | Inr a \<Rightarrow> Inr (vectors, NdArray a))
           else if package self = ''custom'' then
             (case m_fit_predict m vectors of
                Inl e \<Rightarrow> Inl e
              | Inr NotNdArray \<Rightarrow>
                  Inl (ValueError ''Custom model must output np.ndarray for labels'')
              | Inr (NdArray a) \<Rightarrow>
                  (if shape0 a \<noteq> length vectors then Inl (ValueError ''incorrect shape'')
                   else Inr (vectors, NdArray a)))
           else Inl (UnboundLocalError ''labels'')))"

text \<open>\<^verbatim>\<open>cluster_field = f"_cluster_.{vector_field}.{self.alias}"\<close>.\<close>

definition cluster_field :: "string \<Rightarrow> string \<Rightarrow> string" where
  "cluster_field vf al = ''_cluster_.'' @ vf @ ''.'' @ al"

text \<open>The list comprehension that extracts the vectors of \<^verbatim>\<open>_fit_predict\<close>.\<close>

definition extract_vectors :: "string \<Rightarrow> document list \<Rightarrow> field_value list" where
  "extract_vectors vf documents =
     concat (map (\<lambda>document. case get_field vf document of None \<Rightarrow> [] | Some x \<Rightarrow> [x]) documents)"

definition fit_predict ::
  "cluster_ops \<Rightarrow> document list \<Rightarrow> string \<Rightarrow> error + centroid_document list \<times> document list" where
  "fit_predict self documents vf =
     (case np_array (extract_vectors vf documents) of
        Inl e \<Rightarrow> Inl e
      | Inr vectors0 \<Rightarrow>
          (case run_model self vectors0 of
             Inl e \<Rightarrow> Inl e
           | Inr (vectors, NotNdArray) \<Rightarrow> Inl (AttributeError ''flatten'')
           | Inr (vectors, NdArray a) \<Rightarrow>
               (let labels = format_labels (outlier_value self) (outlier_label self) a
                in case set_field_across_documents (cluster_field vf (alias' self)) labels documents of
                     Inl e \<Rightarrow> Inl e
                   | Inr documents' \<Rightarrow> Inr (get_centroid_documents vectors labels, documents'))))"

text \<open>
  The remote store is a collaborator: what \<^verbatim>\<open>ClusterOps\<close> sends it is recorded, call
  by call. \<^verbatim>\<open>_update_documents\<close> and \<^verbatim>\<open>_insert_centroids\<close> are the two writes;
  \<^verbatim>\<open>closest\<close> and \<^verbatim>\<open>furthest\<close> are queries (their keyword arguments are passed on
  unchanged and left out here).
\<close>

datatype remote_call =
    UpdateDocuments "string option" "document list"
  | InsertCentroids "string option" "centroid_document list" "string list" string
  | ListClosest "string option" "string option list" string
  | ListFurthest "string option" "string option list" string

definition insert_centroids ::
  "cluster_ops \<Rightarrow> string option \<Rightarrow> string \<Rightarrow> centroid_document list \<Rightarrow> remote_call list \<Rightarrow> remote_call list" where
  "insert_centroids self ds vf centroid_documents remote =
     remote @ [InsertCentroids ds centroid_documents [vf] (alias' self)]"

definition update_documents ::
  "string option \<Rightarrow> document list \<Rightarrow> remote_call list \<Rightarrow> remote_call list" where
  "update_documents ds documents remote = remote @ [UpdateDocuments ds documents]"

text \<open>
  \<^verbatim>\<open>operate\<close>. \<open>ds\<close> is the \<^verbatim>\<open>dataset_id\<close> argument once a \<^verbatim>\<open>Dataset\<close> object has been
  replaced by its id, \<open>fetched\<close> is what \<^verbatim>\<open>_get_all_documents\<close> returns for it. The
  result is the outcome, the object with \<^verbatim>\<open>dataset_id\<close> and \<^verbatim>\<open>vector_field\<close>
  reassigned, and the calls made to the remote store. When neither the argument nor
  the object gives vector fields, \<^verbatim>\<open>vector_field\<close> is unbound at the call of
  \<^verbatim>\<open>_fit_predict\<close>.
\<close>

definition operate ::
  "cluster_ops \<Rightarrow> string option \<Rightarrow> string list option \<Rightarrow> document list \<Rightarrow> remote_call list \<Rightarrow>
   (error + unit) \<times> cluster_ops \<times> remote_call list" where
  "operate self ds vector_fields_arg fetched remote =
     (let vfs = (case vector_fields_arg of None \<Rightarrow> vector_fields self | Some v \<Rightarrow> Some v);
          self1 = self\<lparr>dataset_id := ds\<rparr>
      in case vfs of
           None \<Rightarrow> (Inl (UnboundLocalError ''vector_field''), self1, remote)
         | Some [] \<Rightarrow> (Inl IndexError, self1, remote)
         | Some (vf # rest) \<Rightarrow>
             (let self2 = self1\<lparr>vector_field := Some vf\<rparr>
              in case fit_predict self2 fetched vf of
                   Inl e \<Rightarrow> (Inl e, self2, remote)
                 | Inr (centroid_documents, labelled_documents) \<Rightarrow>
                     (Inr (), self2,
                      insert_centroids self2 ds vf centroid_documents
                        (update_documents ds labelled_documents remote))))"

text \<open>\<^verbatim>\<open>closest\<close> and \<^verbatim>\<open>furthest\<close>: each argument defaults to the stored attribute.\<close>

definition closest ::
  "cluster_ops \<Rightarrow> string option \<Rightarrow> string option \<Rightarrow> string option \<Rightarrow> remote_call list \<Rightarrow> remote_call list" where
  "closest self ds vf alias_arg remote =
     remote @ [ListClosest (case ds of None \<Rightarrow> dataset_id self | Some d \<Rightarrow> Some d)
                 [case vf of None \<Rightarrow> vector_field self | Some f \<Rightarrow> Some f]
                 (case alias_arg of None \<Rightarrow> alias' self | Some a \<Rightarrow> a)]"

definition furthest ::
  "cluster_ops \<Rightarrow> string option \<Rightarrow> string option \<Rightarrow> string option \<Rightarrow> remote_call list \<Rightarrow> remote_call list" where
  "furthest self ds vf alias_arg remote =
     remote @ [ListFurthest (case ds of None \<Rightarrow> dataset_id self | Some d \<Rightarrow> Some d)
                 [case vf of None \<Rightarrow> vector_field self | Some f \<Rightarrow> Some f]
                 (case alias_arg of None \<Rightarrow> alias' self | Some a \<Rightarrow> a)]"

section \<open>Example objects\<close>

text \<open>
  Concrete models and objects for evaluating the definitions: a custom model whose
  \<^verbatim>\<open>fit_predict\<close> returns a fixed value whatever the vectors, a custom model that puts
  every vector in cluster 0 and, as the scikit-learn estimators do, refuses an empty
  input, and a library whose every constructor gives an estimator with an
  \<^verbatim>\<open>n_clusters\<close> attribute (8 unless configured) that puts every vector in cluster 0.
  \<open>custom_ops m\<close> is the object that \<^verbatim>\<open>ClusterOps(model=m, vector_fields=["v"])\<close>
  constructs for such a custom model (lemma \<open>init_fixed_model\<close>).
\<close>

definition fixed_model :: "model_out \<Rightarrow> model_obj" where
  "fixed_model out =
     \<lparr>class_str = ''<class '__main__.Fixed'>'', dunder_name = None,
      attr_n_clusters = None, attr_k = None,
      m_fit_predict = (\<lambda>vectors. Inr out),
      m_fit_labels = (\<lambda>vectors. Inl (AttributeError ''fit'')),
      m_train_assign = (\<lambda>vectors. Inl (AttributeError ''train'')),
      m_call = (\<lambda>vectors. Inl (AttributeError ''__call__''))\<rparr>"

definition stub_library :: library where
  "stub_library name cfg =
     Inr \<lparr>class_str = ''<class 'sklearn.cluster.Stub'>'', dunder_name = None,
          attr_n_clusters = Some (case map_of cfg ''n_clusters'' of None \<Rightarrow> PyInt 8 | Some n \<Rightarrow> n),
          attr_k = None,
          m_fit_predict = (\<lambda>vectors. Inr (NdArray (Labels1D (map (\<lambda>v. 0) vectors)))),
          m_fit_labels = (\<lambda>vectors. Inl (AttributeError ''fit'')),
          m_train_assign = (\<lambda>vectors. Inl (AttributeError ''train'')),
          m_call = (\<lambda>vectors. Inl (AttributeError ''__call__''))\<rparr>"

definition rejecting_model :: model_obj where
  "rejecting_model =
     \<lparr>class_str = ''<class '__main__.Fixed'>'', dunder_name = None,
      attr_n_clusters = None, attr_k = None,
      m_fit_predict = (\<lambda>vectors. if vectors = [] then Inl (LibraryError ''empty input'')
                                  else Inr (NdArray (Labels1D (map (\<lambda>v. 0) vectors)))),
      m_fit_labels = (\<lambda>vectors. Inl (AttributeError ''fit'')),
      m_train_assign = (\<lambda>vectors. Inl (AttributeError ''train'')),
      m_call = (\<lambda>vectors. Inl (AttributeError ''__call__''))\<rparr>"

definition custom_ops :: "model_obj \<Rightarrow> cluster_ops" where
  "custom_ops m =
     \<lparr>vector_field = Some ''v'', vector_fields = Some [''v''], config = [],
      model_name = ''Fixed'', model = ObjModel m, package = ''custom'', n_clusters = PyNone,
      alias' = ''fixed'', outlier_value = - 1, outlier_label = ''outlier'', dataset_id = None\<rparr>"

section \<open>Facts about the string functions\<close>

lemma less_ten_cases: "(d::nat) < 10 \<Longrightarrow> d \<in> {0, 1, 2, 3, 4, 5, 6, 7, 8, 9}"
  by auto

lemma digit_char_cases: "d < 10 \<Longrightarrow> digit_char d \<in> set ''0123456789''"
  using less_ten_cases [of d] by (auto simp: digit_char_def)

lemma digit_val_digit_char: "d < 10 \<Longrightarrow> digit_val (digit_char d) = d"
  using less_ten_cases [of d] by (auto simp: digit_val_def digit_char_def)

lemma digits_val_str_nat: "digits_val (str_nat n) = n"
proof (induction n rule: str_nat.induct)
  case (1 n)
  show ?case
  proof (cases "n < 10")
    case True
    then show ?thesis
      by (simp add: str_nat.simps [of n] digits_val_def digit_val_digit_char)
  next
    case False
    with 1 have "digits_val (str_nat (n div 10)) = n div 10" by simp
    with False show ?thesis
      by (simp add: str_nat.simps [of n] digits_val_def digit_val_digit_char)
  qed
qed

lemma str_nat_inj: "str_nat m = str_nat n \<Longrightarrow> m = n"
  by (metis digits_val_str_nat)

lemma str_nat_digits: "set (str_nat n) \<subseteq> set ''0123456789''"
proof (induction n rule: str_nat.induct)
  case (1 n)
  show ?case
  proof (cases "n < 10")
    case True
    then show ?thesis
      using digit_char_cases [of n] by (simp add: str_nat.simps [of n])
  next
    case False
    with 1 have "set (str_nat (n div 10)) \<subseteq> set ''0123456789''" by simp
    moreover have "digit_char (n mod 10) \<in> set ''0123456789''"
      by (rule digit_char_cases) simp
    ultimately show ?thesis
      using False by (simp add: str_nat.simps [of n])
  qed
qed

lemma str_nat_no_minus: "CHR ''-'' \<notin> set (str_nat n)"
  using str_nat_digits [of n] by auto

lemma str_nat_not_Nil: "str_nat n \<noteq> []"
  by (simp add: str_nat.simps [of n])

lemma str_int_inj: "str_int a = str_int b \<Longrightarrow> a = b"
proof -
  assume eq: "str_int a = str_int b"
  have hd_nat: "\<And>n. hd (str_nat n) \<noteq> CHR ''-''"
    using str_nat_no_minus str_nat_not_Nil by (metis hd_in_set)
  show ?thesis
  proof (cases "a < 0")
    case an: True
    show ?thesis
    proof (cases "b < 0")
      case True
      with an eq have "str_nat (nat (- a)) = str_nat (nat (- b))"
        by (simp add: str_int_def)
      then have "nat (- a) = nat (- b)" by (rule str_nat_inj)
      with an True show ?thesis by linarith
    next
      case False
      with an eq have "CHR ''-'' # str_nat (nat (- a)) = str_nat (nat b)"
        by (simp add: str_int_def)
      then have "hd (str_nat (nat b)) = CHR ''-''" by (metis list.sel(1))
      with hd_nat show ?thesis by blast
    qed
  next
    case ap: False
    show ?thesis
    proof (cases "b < 0")
      case True
      with ap eq have "str_nat (nat a) = CHR ''-'' # str_nat (nat (- b))"
        by (simp add: str_int_def)
      then have "hd (str_nat (nat a)) = CHR ''-''" by (metis list.sel(1))
      with hd_nat show ?thesis by blast
    next
      case False
      with ap eq have "str_nat (nat a) = str_nat (nat b)"
        by (simp add: str_int_def)
      then have "nat a = nat b" by (rule str_nat_inj)
      with ap False show ?thesis by linarith
    qed
  qed
qed

section \<open>Facts about grouping and the mean\<close>


lemma centroids_append_keys:
  "map fst (centroids_append cs l v) = (if l \<in> fst ` set cs then map fst cs else map fst cs @ [l])"
  by (induction cs l v rule: centroids_append.induct) auto

lemma centroids_append_map_of:
  "map_of (centroids_append cs l v) k =
     (if k = l then Some ((case map_of cs l of None \<Rightarrow> [] | Some vs \<Rightarrow> vs) @ [v]) else map_of cs k)"
  by (induction cs l v rule: centroids_append.induct) auto

lemma group_fold_keys:
  "set (map fst (foldl group_step acc ps)) = fst ` set acc \<union> fst ` set ps"
proof (induction ps arbitrary: acc)
  case Nil
  then show ?case by simp
next
  case (Cons p ps)
  obtain l v where p: "p = (l, v)" by (cases p)
  have "set (map fst (group_step acc p)) = insert l (fst ` set acc)"
    by (auto simp: p group_step_def centroids_append_keys)
  with Cons [of "group_step acc p"] show ?case
    by (auto simp: p)
qed

lemma group_fold_distinct:
  "distinct (map fst acc) \<Longrightarrow> distinct (map fst (foldl group_step acc ps))"
proof (induction ps arbitrary: acc)
  case Nil
  then show ?case by simp
next
  case (Cons p ps)
  obtain l v where p: "p = (l, v)" by (cases p)
  from Cons.prems have "distinct (map fst (group_step acc p))"
    by (auto simp: p group_step_def centroids_append_keys)
  then show ?case
    using Cons.IH [of "group_step acc p"] by simp
qed

lemma group_fold_map_of:
  "map_of (foldl group_step acc ps) k =
     (if k \<in> fst ` set acc \<union> fst ` set ps
      then Some ((case map_of acc k of None \<Rightarrow> [] | Some vs \<Rightarrow> vs) @ members ps k)
      else None)"
proof (induction ps arbitrary: acc)
  case Nil
  then show ?case
    by (auto simp: members_def map_of_eq_None_iff split: option.splits)
next
  case (Cons p ps)
  obtain l v where p: "p = (l, v)" by (cases p)
  have keys: "fst ` set (group_step acc p) = insert l (fst ` set acc)"
    using group_fold_keys [of acc "[p]"] by (simp add: p)
  show ?case
  proof (cases "k = l")
    case True
    then show ?thesis
      using Cons.IH [of "group_step acc p"] keys
      by (simp add: p group_step_def centroids_append_map_of members_def split: option.splits)
  next
    case False
    then show ?thesis
      using Cons.IH [of "group_step acc p"] keys
      by (simp add: p group_step_def centroids_append_map_of members_def split: option.splits)
  qed
qed


lemma group_by_label_fold: "group_by_label labels vectors = foldl group_step [] (zip labels vectors)"
  by (simp add: group_by_label_def group_step_def)

lemma group_by_label_distinct: "distinct (map fst (group_by_label labels vectors))"
  by (simp add: group_by_label_fold group_fold_distinct)

lemma group_by_label_keys: "fst ` set (group_by_label labels vectors) = fst ` set (zip labels vectors)"
  using group_fold_keys [of "[]" "zip labels vectors"] by (simp add: group_by_label_fold)

lemma group_by_label_mem:
  "(l, vs) \<in> set (group_by_label labels vectors) \<longleftrightarrow>
     l \<in> fst ` set (zip labels vectors) \<and> vs = members (zip labels vectors) l"
proof -
  have "(l, vs) \<in> set (group_by_label labels vectors) \<longleftrightarrow>
      map_of (group_by_label labels vectors) l = Some vs"
    using group_by_label_distinct [of labels vectors] by simp
  also have "\<dots> \<longleftrightarrow> l \<in> fst ` set (zip labels vectors) \<and> vs = members (zip labels vectors) l"
    by (auto simp: group_by_label_fold group_fold_map_of)
  finally show ?thesis .
qed

lemma get_centroid_documents_ids:
  "map doc_id (get_centroid_documents vectors labels) = map fst (group_by_label labels vectors)"
  by (simp add: get_centroid_documents_def case_prod_beta)

lemma get_centroid_documents_mem:
  "d \<in> set (get_centroid_documents vectors labels) \<longleftrightarrow>
     doc_id d \<in> fst ` set (zip labels vectors) \<and>
     centroid_vector d = np_mean0 (members (zip labels vectors) (doc_id d))"
proof
  assume "d \<in> set (get_centroid_documents vectors labels)"
  then obtain l vs where "(l, vs) \<in> set (group_by_label labels vectors)"
    and "d = \<lparr>doc_id = l, centroid_vector = np_mean0 vs\<rparr>"
    by (auto simp: get_centroid_documents_def)
  then show "doc_id d \<in> fst ` set (zip labels vectors) \<and>
     centroid_vector d = np_mean0 (members (zip labels vectors) (doc_id d))"
    by (simp add: group_by_label_mem)
next
  assume a: "doc_id d \<in> fst ` set (zip labels vectors) \<and>
     centroid_vector d = np_mean0 (members (zip labels vectors) (doc_id d))"
  then have "(doc_id d, members (zip labels vectors) (doc_id d)) \<in> set (group_by_label labels vectors)"
    by (simp add: group_by_label_mem)
  moreover have "d = \<lparr>doc_id = doc_id d, centroid_vector = np_mean0 (members (zip labels vectors) (doc_id d))\<rparr>"
    using a by simp
  ultimately show "d \<in> set (get_centroid_documents vectors labels)"
    unfolding get_centroid_documents_def set_map by (metis (mono_tags, lifting) case_prod_conv image_eqI)
qed






lemma members_mset:
  "mset pairs = mset pairs' \<Longrightarrow> mset (members pairs l) = mset (members pairs' l)"
  by (metis members_def mset_filter mset_map)

lemma keys_mset: "mset pairs = mset pairs' \<Longrightarrow> fst ` set pairs = fst ` set pairs'"
  by (metis set_mset_mset)


section \<open>LabelFormatter: properties\<close>


lemma format_label_inj_on:
  assumes "\<forall>c\<in>S. c \<noteq> ov \<longrightarrow> ol \<noteq> ''cluster-'' @ str_int c"
  shows "inj_on (format_label ov ol) S"
proof (rule inj_onI)
  fix a b
  assume a: "a \<in> S" and b: "b \<in> S" and eq: "format_label ov ol a = format_label ov ol b"
  show "a = b"
  proof (cases "a = ov")
    case True
    show ?thesis
    proof (cases "b = ov")
      case True
      with \<open>a = ov\<close> show ?thesis by simp
    next
      case False
      with True eq have "ol = ''cluster-'' @ str_int b" by (simp add: format_label_def)
      with assms b False show ?thesis by blast
    qed
  next
    case False
    show ?thesis
    proof (cases "b = ov")
      case True
      with False eq have "ol = ''cluster-'' @ str_int a" by (simp add: format_label_def)
      with assms a False show ?thesis by blast
    next
      case bf: False
      with False eq have "str_int a = str_int b" by (simp add: format_label_def)
      then show ?thesis by (rule str_int_inj)
    qed
  qed
qed

text \<open>
  Claim C6. For every integer label array and every configured sentinel and outlier
  label, \<^verbatim>\<open>_format_labels\<close> returns one string per entry of the flattened array:
  the outlier label where the entry equals the sentinel, \<^verbatim>\<open>"cluster-<c>"\<close> for every
  other code \<open>c\<close>. The function is total and depends on nothing but its arguments.
\<close>

theorem format_labels_pointwise:
  "length (format_labels ov ol labels) = length (flatten_tolist labels) \<and>
   (\<forall>i<length (flatten_tolist labels).
      format_labels ov ol labels ! i =
        (if flatten_tolist labels ! i = ov then ol
         else ''cluster-'' @ str_int (flatten_tolist labels ! i)))"
  by (simp add: format_labels_def format_label_def)

theorem format_labels_pointwise_witness:
  "format_labels (- 1) ''outlier'' (Labels1D [3, - 1, - 2]) ! 2 = ''cluster--2'' \<and>
   format_labels (- 1) ''outlier'' (Labels1D [3, - 1, - 2]) ! 1 = ''outlier'' \<and>
   length (format_labels (- 1) ''outlier'' (Labels1D [3, - 1, - 2])) = 3"
proof -
  have s: "str_int (- 2) = ''-2''" by code_simp
  from format_labels_pointwise [of "- 1" "''outlier''" "Labels1D [3, - 1, - 2]"]
  show ?thesis by (simp add: s)
qed

text \<open>
  Claim C9 (amended). The number of distinct canonical labels equals the number of
  distinct input codes whenever the configured outlier label is not itself
  \<^verbatim>\<open>"cluster-<c>"\<close> for a non-sentinel input code \<open>c\<close>; this is so for every input
  with the default outlier label \<^verbatim>\<open>"outlier"\<close>, and codes \<^verbatim>\<open>[0,0,1,-1,-1]\<close> map to
  \<^verbatim>\<open>["cluster-0","cluster-0","cluster-1","outlier","outlier"]\<close>.
\<close>

theorem format_labels_cardinality:
  "((\<forall>c\<in>set (flatten_tolist labels). c \<noteq> ov \<longrightarrow> ol \<noteq> ''cluster-'' @ str_int c) \<longrightarrow>
      card (set (format_labels ov ol labels)) = card (set (flatten_tolist labels))) \<and>
   card (set (format_labels ov ''outlier'' labels)) = card (set (flatten_tolist labels)) \<and>
   format_labels (- 1) ''outlier'' (Labels1D [0, 0, 1, - 1, - 1]) =
     [''cluster-0'', ''cluster-0'', ''cluster-1'', ''outlier'', ''outlier'']"
proof (intro conjI impI)
  assume "\<forall>c\<in>set (flatten_tolist labels). c \<noteq> ov \<longrightarrow> ol \<noteq> ''cluster-'' @ str_int c"
  then have "inj_on (format_label ov ol) (set (flatten_tolist labels))"
    by (rule format_label_inj_on)
  then show "card (set (format_labels ov ol labels)) = card (set (flatten_tolist labels))"
    by (simp add: format_labels_def card_image)
next
  have "inj_on (format_label ov ''outlier'') (set (flatten_tolist labels))"
    by (rule format_label_inj_on) simp
  then show "card (set (format_labels ov ''outlier'' labels)) = card (set (flatten_tolist labels))"
    by (simp add: format_labels_def card_image)
next
  show "format_labels (- 1) ''outlier'' (Labels1D [0, 0, 1, - 1, - 1]) =
     [''cluster-0'', ''cluster-0'', ''cluster-1'', ''outlier'', ''outlier'']"
    by code_simp
qed

theorem format_labels_cardinality_witness:
  "card (set (format_labels (- 1) ''noise'' (Labels1D [0, 0, 1, - 1, - 1]))) = 3 \<and>
   card (set (flatten_tolist (Labels1D [0, 0, 1, - 1, - 1]))) = 3"
proof -
  have h: "\<forall>c\<in>set (flatten_tolist (Labels1D [0, 0, 1, - 1, - 1])).
      c \<noteq> - 1 \<longrightarrow> ''noise'' \<noteq> ''cluster-'' @ str_int c"
    by simp
  have c: "card (set (flatten_tolist (Labels1D [0, 0, 1, - 1, - 1]))) = 3"
    by simp
  from format_labels_cardinality [of "Labels1D [0, 0, 1, - 1, - 1]" "- 1" "''noise''"] h c
  show ?thesis by simp
qed

text \<open>
  With the outlier label configured as \<^verbatim>\<open>"cluster-0"\<close>, the two codes \<^verbatim>\<open>0\<close> and
  \<^verbatim>\<open>-1\<close> collapse to one canonical label.
\<close>

theorem format_labels_cardinality_counterexample:
  "card (set (format_labels (- 1) ''cluster-0'' (Labels1D [0, - 1]))) = 1 \<and>
   card (set (flatten_tolist (Labels1D [0, - 1]))) = 2"
proof -
  have "format_labels (- 1) ''cluster-0'' (Labels1D [0, - 1]) = [''cluster-0'', ''cluster-0'']"
    by code_simp
  then show ?thesis by simp
qed


section \<open>CentroidComputer: properties\<close>





text \<open>
  Claim C8 (amended). Permuting the (vector, label) pairs yields records for the same
  set of labels, and the record of a label is on both sides the float64 mean of the
  same member vectors, taken in the order in which they occur. When the permutation
  keeps the order of the members of every label, the two sets of records are equal.
\<close>

theorem centroid_documents_permutation:
  assumes "mset (zip labels vectors) = mset (zip labels' vectors')"
  shows "doc_id ` set (get_centroid_documents vectors labels) =
      doc_id ` set (get_centroid_documents vectors' labels') \<and>
    (\<forall>d\<in>set (get_centroid_documents vectors labels).
       \<forall>d'\<in>set (get_centroid_documents vectors' labels'). doc_id d = doc_id d' \<longrightarrow>
         centroid_vector d = np_mean0 (members (zip labels vectors) (doc_id d)) \<and>
         centroid_vector d' = np_mean0 (members (zip labels' vectors') (doc_id d)) \<and>
         mset (members (zip labels vectors) (doc_id d)) =
           mset (members (zip labels' vectors') (doc_id d))) \<and>
    ((\<forall>l. members (zip labels vectors) l = members (zip labels' vectors') l) \<longrightarrow>
       set (get_centroid_documents vectors labels) = set (get_centroid_documents vectors' labels'))"
proof (intro conjI ballI impI)
  have keys: "fst ` set (zip labels vectors) = fst ` set (zip labels' vectors')"
    using assms by (rule keys_mset)
  have ids: "\<And>vs ls. doc_id ` set (get_centroid_documents vs ls) = fst ` set (zip ls vs)"
    using get_centroid_documents_ids group_by_label_keys by (metis set_map)
  show "doc_id ` set (get_centroid_documents vectors labels) =
      doc_id ` set (get_centroid_documents vectors' labels')"
    by (simp only: ids keys)
  {
    fix d d'
    assume d: "d \<in> set (get_centroid_documents vectors labels)"
      and d': "d' \<in> set (get_centroid_documents vectors' labels')"
      and eq: "doc_id d = doc_id d'"
    from d show "centroid_vector d = np_mean0 (members (zip labels vectors) (doc_id d))"
      by (simp add: get_centroid_documents_mem)
    from d' eq show "centroid_vector d' = np_mean0 (members (zip labels' vectors') (doc_id d))"
      by (simp add: get_centroid_documents_mem)
    from assms show "mset (members (zip labels vectors) (doc_id d)) =
           mset (members (zip labels' vectors') (doc_id d))"
      by (rule members_mset)
  }
  assume same: "\<forall>l. members (zip labels vectors) l = members (zip labels' vectors') l"
  show "set (get_centroid_documents vectors labels) = set (get_centroid_documents vectors' labels')"
    by (rule set_eqI) (simp add: get_centroid_documents_mem keys same)
qed

theorem centroid_documents_permutation_witness:
  "mset (zip [''cluster-0'', ''outlier'', ''cluster-0''] [[0, 0], [5, 7], [2, 2 :: float64]]) =
   mset (zip [''outlier'', ''cluster-0'', ''cluster-0''] [[5, 7], [0, 0], [2, 2]]) \<and>
   set (get_centroid_documents [[0, 0], [5, 7], [2, 2]] [''cluster-0'', ''outlier'', ''cluster-0'']) =
   set (get_centroid_documents [[5, 7], [0, 0], [2, 2]] [''outlier'', ''cluster-0'', ''cluster-0''])"
proof -
  have h: "mset (zip [''cluster-0'', ''outlier'', ''cluster-0''] [[0, 0], [5, 7], [2, 2 :: float64]]) =
   mset (zip [''outlier'', ''cluster-0'', ''cluster-0''] [[5, 7], [0, 0], [2, 2]])"
    by simp
  have m: "\<forall>l. members (zip [''cluster-0'', ''outlier'', ''cluster-0''] [[0, 0], [5, 7], [2, 2 :: float64]]) l =
      members (zip [''outlier'', ''cluster-0'', ''cluster-0''] [[5, 7], [0, 0], [2, 2]]) l"
    by (simp add: members_def)
  from centroid_documents_permutation [OF h] m h show ?thesis by blast
qed

lemma perm_counterexample_eval:
  "get_centroid_documents [[9007199254740992, 0], [1, 0], [1, 0]] [''cluster-0'', ''cluster-0'', ''cluster-0'']
     = [\<lparr>doc_id = ''cluster-0'', centroid_vector = [6004799503160661 / 2, 0]\<rparr>]"
  "get_centroid_documents [[1, 0], [1, 0], [9007199254740992, 0]] [''cluster-0'', ''cluster-0'', ''cluster-0'']
     = [\<lparr>doc_id = ''cluster-0'', centroid_vector = [6004799503160663 / 2, 0]\<rparr>]"
  by code_simp+

text \<open>
  float64 addition is not associative: three vectors with one label give different
  centroids in two orders (\<open>2\<^sup>5\<^sup>3 + 1\<close> rounds to \<open>2\<^sup>5\<^sup>3\<close>, while \<open>1 + 1 + 2\<^sup>5\<^sup>3\<close>
  is exact).
\<close>

theorem centroid_documents_permutation_counterexample:
  "mset (zip [''cluster-0'', ''cluster-0'', ''cluster-0''] [[9007199254740992, 0], [1, 0], [1, 0 :: float64]]) =
   mset (zip [''cluster-0'', ''cluster-0'', ''cluster-0''] [[1, 0], [1, 0], [9007199254740992, 0]]) \<and>
   set (get_centroid_documents [[9007199254740992, 0], [1, 0], [1, 0]] [''cluster-0'', ''cluster-0'', ''cluster-0''])
   \<noteq> set (get_centroid_documents [[1, 0], [1, 0], [9007199254740992, 0]] [''cluster-0'', ''cluster-0'', ''cluster-0''])"
  by (simp add: perm_counterexample_eval)

section \<open>ModelAdapter: properties\<close>

lemma normalise_example:
  "remove_char CHR ''_'' (remove_char CHR '' '' (lower ''not-a-real-model'')) = ''not-a-real-model''"
  by (simp add: lower_def lower_char_def remove_char_def)

text \<open>
  Claim C1. An unrecognized model name is to fail with an unsupported-model error.
  The code does not: \<^verbatim>\<open>_get_model\<close> returns the normalised name itself as the model,
  for every library and configuration, and \<^verbatim>\<open>__init__\<close> completes with it (package
  \<^verbatim>\<open>"custom"\<close>, alias the name). The \<^verbatim>\<open>raise ValueError("ModelNotSupported")\<close> of the
  source is never reached by a string.
\<close>

theorem get_model_unrecognized_name:
  "get_model lib cfg (StrModel ''not-a-real-model'') =
     Inr (StrModel ''not-a-real-model'', ''not-a-real-model'', None) \<and>
   init lib (StrModel ''not-a-real-model'') (Some [''v'']) None None None None (- 1) ''outlier'' =
     Inr \<lparr>vector_field = Some ''v'', vector_fields = Some [''v''], config = [],
          model_name = ''not-a-real-model'', model = StrModel ''not-a-real-model'',
          package = ''custom'', n_clusters = PyNone, alias' = ''not-a-real-model'',
          outlier_value = - 1, outlier_label = ''outlier'', dataset_id = None\<rparr>"
proof -
  have g: "get_model lib cfg (StrModel ''not-a-real-model'') =
     Inr (StrModel ''not-a-real-model'', ''not-a-real-model'', None)" for cfg
    by (simp add: get_model_def normalise_example Let_def)
  have p: "get_package (StrModel ''not-a-real-model'') = Inr ''custom''"
    by (simp add: get_package_def)
  have a: "get_alias (StrModel ''not-a-real-model'') ''not-a-real-model'' PyNone None = ''not-a-real-model''"
    by (simp add: get_alias_def lower_def lower_char_def)
  show ?thesis
    by (simp add: g init_def p a)
qed

lemma get_model_str_never_raises:
  "get_model lib cfg (StrModel s) = Inl e \<Longrightarrow> \<exists>name c. lib name c = Inl e"
  by (auto simp: get_model_def construct_def Let_def split: if_splits sum.splits)

lemma lower_char_not_upper: "lower_char c \<notin> set ''ABCDEFGHIJKLMNOPQRSTUVWXYZ''"
  by (simp add: lower_char_def)

lemma lower_no_upper: "\<forall>c\<in>set (lower s). c \<notin> set ''ABCDEFGHIJKLMNOPQRSTUVWXYZ''"
  using lower_char_not_upper by (auto simp: lower_def simp del: set_simps)

section \<open>Facts about documents and the model run\<close>

lemma init_fixed_model:
  "init lib (ObjModel (fixed_model out)) (Some [''v'']) None None None None (- 1) ''outlier'' =
     Inr (custom_ops (fixed_model out))"
proof -
  have n: "before_sep [CHR 0x27, CHR ''>''] (after_last_dot ''<class '__main__.Fixed'>'') = ''Fixed''"
    by (simp add: after_last_dot_def)
  have l: "lower ''Fixed'' = ''fixed''"
    by (simp add: lower_def lower_char_def)
  show ?thesis
    by (simp add: init_def get_model_def fixed_model_def custom_ops_def n get_alias_def l)
qed

lemma dict_set_map_of:
  "map_of (dict_set d k v) k' = (if k' = k then Some v else map_of d k')"
  by (induction d k v rule: dict_set.induct) auto

lemma set_field_across_documents_Inr:
  "set_field_across_documents f vals ds = Inr ds' \<Longrightarrow>
     length ds' = length ds \<and> length ds \<le> length vals \<and>
     (\<forall>i<length ds. ds' ! i = dict_set (ds ! i) f (Str (vals ! i)))"
proof (induction f vals ds arbitrary: ds' rule: set_field_across_documents.induct)
  case (1 field vals)
  then show ?case by simp
next
  case (2 field d ds)
  then show ?case by simp
next
  case (3 field v vs d ds)
  from "3.prems" obtain r where r: "set_field_across_documents field vs ds = Inr r"
    and ds': "ds' = dict_set d field (Str v) # r"
    by (auto split: sum.splits)
  from "3.IH" [OF r] have ih: "length r = length ds" "length ds \<le> length vs"
    "\<forall>i<length ds. r ! i = dict_set (ds ! i) field (Str (vs ! i))"
    by simp_all
  show ?case
    using ih by (auto simp: ds' nth_Cons')
qed

lemma set_field_across_documents_short:
  "length vals < length ds \<Longrightarrow> set_field_across_documents f vals ds = Inl IndexError"
  by (induction f vals ds rule: set_field_across_documents.induct) auto

lemma as_vectors_Some: "as_vectors xs = Some vs \<Longrightarrow> xs = map Vec vs"
proof (induction xs arbitrary: vs rule: as_vectors.induct)
  case 1
  then show ?case by simp
next
  case (2 v xs)
  then show ?case by auto
next
  case (3 s xs)
  then show ?case by simp
qed

lemma np_array_Inr: "np_array xs = Inr vs \<Longrightarrow> xs = map Vec vs"
  by (auto simp: np_array_def dest: as_vectors_Some split: option.splits list.splits if_splits)

lemma np_array_Nil: "np_array [] = Inr []"
  by (simp add: np_array_def)

lemma extract_vectors_length:
  "length (extract_vectors vf documents) = length (filter (is_field vf) documents)"
  by (induction documents) (auto simp: extract_vectors_def is_field_def split: option.splits)

lemma extract_vectors_none:
  "\<forall>d\<in>set documents. \<not> is_field vf d \<Longrightarrow> extract_vectors vf documents = []"
  by (induction documents) (auto simp: extract_vectors_def is_field_def split: option.splits)

lemma run_model_length: "run_model self vs = Inr (vs', out) \<Longrightarrow> length vs' = length vs"
  by (auto simp: run_model_def Let_def split: model_val.splits if_splits sum.splits model_out.splits)

lemma run_model_custom:
  "package self = ''custom'' \<Longrightarrow> model self = ObjModel m \<Longrightarrow>
   run_model self vectors =
     (case m_fit_predict m vectors of
        Inl e \<Rightarrow> Inl e
      | Inr NotNdArray \<Rightarrow> Inl (ValueError ''Custom model must output np.ndarray for labels'')
      | Inr (NdArray a) \<Rightarrow>
          (if shape0 a \<noteq> length vectors then Inl (ValueError ''incorrect shape'')
           else Inr (vectors, NdArray a)))"
  by (simp add: run_model_def)

lemma run_model_update [simp]:
  "run_model (self\<lparr>dataset_id := d\<rparr>) vs = run_model self vs"
  "run_model (self\<lparr>vector_field := f\<rparr>) vs = run_model self vs"
  by (simp_all add: run_model_def split: model_val.splits)

lemma fit_predict_Inr:
  assumes "fit_predict self documents vf = Inr (cents, documents')"
  obtains vectors0 vectors a where
    "np_array (extract_vectors vf documents) = Inr vectors0"
    "run_model self vectors0 = Inr (vectors, NdArray a)"
    "set_field_across_documents (cluster_field vf (alias' self))
       (format_labels (outlier_value self) (outlier_label self) a) documents = Inr documents'"
    "cents = get_centroid_documents vectors (format_labels (outlier_value self) (outlier_label self) a)"
  using assms
  by (auto simp: fit_predict_def Let_def split: sum.splits prod.splits model_out.splits)

lemma cluster_field_inj: "cluster_field vf a = cluster_field vf b \<Longrightarrow> a = b"
  by (simp add: cluster_field_def)

section \<open>ClusterOrchestrator: properties\<close>

text \<open>
  Claim C2 (amended). When \<^verbatim>\<open>_fit_predict\<close> returns, it returns as many documents as
  were fetched, and the \<open>i\<close>-th carries the \<open>i\<close>-th canonical label under the path
  \<^verbatim>\<open>_cluster_.<vector_field>.<alias>\<close>, with \<^verbatim>\<open><alias>\<close> the stored alias; every other
  field of the document is as it was. Paths of the same vector field with different
  aliases differ, so a clustering under another alias is not overwritten.
\<close>

theorem fit_predict_attaches_labels:
  assumes "fit_predict self documents vf = Inr (centroid_documents, documents')"
  shows "length documents' = length documents \<and>
    (\<exists>vectors0 vectors a.
       np_array (extract_vectors vf documents) = Inr vectors0 \<and>
       run_model self vectors0 = Inr (vectors, NdArray a) \<and>
       (\<forall>i<length documents.
          get_field (''_cluster_.'' @ vf @ ''.'' @ alias' self) (documents' ! i) =
            Some (Str (format_labels (outlier_value self) (outlier_label self) a ! i)) \<and>
          (\<forall>f. f \<noteq> ''_cluster_.'' @ vf @ ''.'' @ alias' self \<longrightarrow>
             get_field f (documents' ! i) = get_field f (documents ! i)))) \<and>
    (\<forall>other. other \<noteq> alias' self \<longrightarrow>
       ''_cluster_.'' @ vf @ ''.'' @ other \<noteq> ''_cluster_.'' @ vf @ ''.'' @ alias' self)"
proof -
  from assms obtain vectors0 vectors a where
    v0: "np_array (extract_vectors vf documents) = Inr vectors0"
    and rm: "run_model self vectors0 = Inr (vectors, NdArray a)"
    and sf: "set_field_across_documents (cluster_field vf (alias' self))
       (format_labels (outlier_value self) (outlier_label self) a) documents = Inr documents'"
    by (rule fit_predict_Inr)
  let ?labels = "format_labels (outlier_value self) (outlier_label self) a"
  let ?field = "''_cluster_.'' @ vf @ ''.'' @ alias' self"
  from set_field_across_documents_Inr [OF sf]
  have len: "length documents' = length documents"
    and nth: "\<forall>i<length documents. documents' ! i = dict_set (documents ! i) ?field (Str (?labels ! i))"
    by (simp_all add: cluster_field_def)
  have "\<forall>i<length documents.
          get_field ?field (documents' ! i) = Some (Str (?labels ! i)) \<and>
          (\<forall>f. f \<noteq> ?field \<longrightarrow> get_field f (documents' ! i) = get_field f (documents ! i))"
    using nth by (simp add: get_field_def dict_set_map_of)
  with v0 rm len show ?thesis by auto
qed

lemma fixed_two_docs:
  "fit_predict (custom_ops (fixed_model (NdArray (Labels1D [0, - 1]))))
      [[(''_id'', Str ''a''), (''v'', Vec [0, 0])], [(''_id'', Str ''b''), (''v'', Vec [2, 2])]] ''v'' =
    Inr ([\<lparr>doc_id = ''cluster-0'', centroid_vector = [0, 0]\<rparr>,
          \<lparr>doc_id = ''outlier'', centroid_vector = [2, 2]\<rparr>],
         [[(''_id'', Str ''a''), (''v'', Vec [0, 0]), (''_cluster_.v.fixed'', Str ''cluster-0'')],
          [(''_id'', Str ''b''), (''v'', Vec [2, 2]), (''_cluster_.v.fixed'', Str ''outlier'')]])"
proof -
  have c: "get_centroid_documents [[0, 0], [2, 2]] [''cluster-0'', ''outlier''] =
     [\<lparr>doc_id = ''cluster-0'', centroid_vector = [0, 0]\<rparr>,
      \<lparr>doc_id = ''outlier'', centroid_vector = [2, 2]\<rparr>]"
    by code_simp
  have f: "format_labels (- 1) ''outlier'' (Labels1D [0, - 1]) = [''cluster-0'', ''outlier'']"
    by code_simp
  show ?thesis
    by (simp add: fit_predict_def extract_vectors_def get_field_def np_array_def run_model_def
        custom_ops_def fixed_model_def f c cluster_field_def)
qed

theorem fit_predict_attaches_labels_witness:
  "get_field ''_cluster_.v.fixed''
     ([[(''_id'', Str ''a''), (''v'', Vec [0, 0]), (''_cluster_.v.fixed'', Str ''cluster-0'')],
       [(''_id'', Str ''b''), (''v'', Vec [2, 2]), (''_cluster_.v.fixed'', Str ''outlier'')]] ! 1)
     = Some (Str ''outlier'') \<and>
   length [[(''_id'', Str ''a''), (''v'', Vec [0, 0]), (''_cluster_.v.fixed'', Str ''cluster-0'')],
       [(''_id'', Str ''b''), (''v'', Vec [2, 2]), (''_cluster_.v.fixed'', Str ''outlier'')]] =
   length [[(''_id'', Str ''a''), (''v'', Vec [0 :: float64, 0])], [(''_id'', Str ''b''), (''v'', Vec [2, 2])]]"
  using fit_predict_attaches_labels [OF fixed_two_docs]
  by (simp add: get_field_def)

text \<open>
  The labels are under \<^verbatim>\<open>_cluster_.v.fixed\<close>; nothing is stored under
  \<^verbatim>\<open>cluster.v.fixed\<close>.
\<close>

theorem cluster_path_counterexample:
  "fit_predict (custom_ops (fixed_model (NdArray (Labels1D [0, - 1]))))
      [[(''_id'', Str ''a''), (''v'', Vec [0, 0])], [(''_id'', Str ''b''), (''v'', Vec [2, 2])]] ''v'' =
    Inr ([\<lparr>doc_id = ''cluster-0'', centroid_vector = [0, 0]\<rparr>,
          \<lparr>doc_id = ''outlier'', centroid_vector = [2, 2]\<rparr>],
         [[(''_id'', Str ''a''), (''v'', Vec [0, 0]), (''_cluster_.v.fixed'', Str ''cluster-0'')],
          [(''_id'', Str ''b''), (''v'', Vec [2, 2]), (''_cluster_.v.fixed'', Str ''outlier'')]]) \<and>
   get_field ''cluster.v.fixed''
     [(''_id'', Str ''a''), (''v'', Vec [0, 0]), (''_cluster_.v.fixed'', Str ''cluster-0'')] = None \<and>
   get_field ''cluster.v.fixed''
     [(''_id'', Str ''b''), (''v'', Vec [2, 2]), (''_cluster_.v.fixed'', Str ''outlier'')] = None"
  by (simp add: fixed_two_docs get_field_def)

lemma fit_predict_too_few_labels:
  assumes "np_array (extract_vectors vf documents) = Inr vectors0"
    and "run_model self vectors0 = Inr (vectors, NdArray a)"
    and "length (flatten_tolist a) < length documents"
  shows "fit_predict self documents vf = Inl IndexError"
  using assms
  by (simp add: fit_predict_def format_labels_def set_field_across_documents_short)

text \<open>
  Claim C3. Documents without the vector field are to pass through unlabelled while
  the others receive the label of their own vector. The code leaves such documents
  out of the vectors, and then pairs the labels, one per vector, with all the
  fetched documents by position: with a first document that lacks the field and a
  second that has it, there is one label for two documents and \<^verbatim>\<open>_fit_predict\<close>
  fails, as does \<^verbatim>\<open>operate\<close>.
\<close>

theorem fit_predict_missing_field:
  "fit_predict (custom_ops (fixed_model (NdArray (Labels1D [0]))))
      [[(''_id'', Str ''a'')], [(''_id'', Str ''b''), (''v'', Vec [1, 2])]] ''v'' = Inl IndexError \<and>
   extract_vectors ''v'' [[(''_id'', Str ''a'')], [(''_id'', Str ''b''), (''v'', Vec [1, 2])]] = [Vec [1, 2]] \<and>
   fst (operate (custom_ops (fixed_model (NdArray (Labels1D [0])))) (Some ''ds'') None
      [[(''_id'', Str ''a'')], [(''_id'', Str ''b''), (''v'', Vec [1, 2])]] []) = Inl IndexError"
proof -
  have f: "format_labels (- 1) ''outlier'' (Labels1D [0]) = [''cluster-0'']"
    by code_simp
  have fp: "fit_predict (custom_ops (fixed_model (NdArray (Labels1D [0]))))
      [[(''_id'', Str ''a'')], [(''_id'', Str ''b''), (''v'', Vec [1, 2])]] ''v'' = Inl IndexError"
    by (simp add: fit_predict_def extract_vectors_def get_field_def np_array_def run_model_def
        custom_ops_def fixed_model_def f cluster_field_def)
  have fp': "fit_predict (custom_ops (fixed_model (NdArray (Labels1D [0])))\<lparr>dataset_id := Some ''ds'', vector_field := Some ''v''\<rparr>)
      [[(''_id'', Str ''a'')], [(''_id'', Str ''b''), (''v'', Vec [1, 2])]] ''v'' = Inl IndexError"
    by (simp add: fit_predict_def extract_vectors_def get_field_def np_array_def run_model_def
        custom_ops_def fixed_model_def f cluster_field_def)
  show ?thesis
    using fp fp' by (simp add: operate_def extract_vectors_def get_field_def custom_ops_def)
qed

text \<open>
  Claim C4 (amended). When no fetched document has the vector field (an empty
  dataset included) and the model fails on the empty input, \<^verbatim>\<open>operate\<close> fails with
  the model's error and has made no call to the remote store. The code has no check
  of its own for an empty input.
\<close>

theorem operate_zero_vectors_model_error:
  assumes "\<forall>d\<in>set fetched. \<not> is_field vf d"
    and "(case vector_fields_arg of None \<Rightarrow> vector_fields self | Some v \<Rightarrow> Some v) = Some (vf # rest)"
    and "run_model self [] = Inl e"
  shows "operate self ds vector_fields_arg fetched remote =
    (Inl e, self\<lparr>dataset_id := ds, vector_field := Some vf\<rparr>, remote)"
proof -
  from assms(1) have "extract_vectors vf fetched = []"
    by (rule extract_vectors_none)
  with assms(3) have "fit_predict (self\<lparr>dataset_id := ds, vector_field := Some vf\<rparr>) fetched vf = Inl e"
    by (simp add: fit_predict_def np_array_Nil)
  with assms(2) show ?thesis
    by (simp add: operate_def)
qed

theorem operate_zero_vectors_model_error_witness:
  "operate (custom_ops rejecting_model) (Some ''ds'') None [[(''_id'', Str ''a'')]] [] =
    (Inl (LibraryError ''empty input''),
     (custom_ops rejecting_model)\<lparr>dataset_id := Some ''ds'', vector_field := Some ''v''\<rparr>, [])"
proof -
  have 1: "\<forall>d\<in>set [[(''_id'', Str ''a'')]]. \<not> is_field ''v'' d"
    by (simp add: is_field_def get_field_def)
  have 2: "(case None of None \<Rightarrow> vector_fields (custom_ops rejecting_model) | Some v \<Rightarrow> Some v) = Some (''v'' # [])"
    by (simp add: custom_ops_def)
  have 3: "run_model (custom_ops rejecting_model) [] = Inl (LibraryError ''empty input'')"
    by (simp add: run_model_def custom_ops_def rejecting_model_def)
  show ?thesis
    by (rule operate_zero_vectors_model_error [OF 1 2 3])
qed

text \<open>
  With a custom model that answers the empty input with an empty label array, a run
  over an empty dataset completes and makes both writes.
\<close>

theorem operate_empty_dataset_counterexample:
  "fst (operate (custom_ops (fixed_model (NdArray (Labels1D [])))) (Some ''ds'') None [] []) = Inr () \<and>
   snd (snd (operate (custom_ops (fixed_model (NdArray (Labels1D [])))) (Some ''ds'') None [] [])) =
     [UpdateDocuments (Some ''ds'') [], InsertCentroids (Some ''ds'') [] [''v''] ''fixed'']"
proof -
  have fp: "fit_predict (custom_ops (fixed_model (NdArray (Labels1D [])))\<lparr>dataset_id := Some ''ds'', vector_field := Some ''v''\<rparr>) [] ''v'' = Inr ([], [])"
    by (simp add: fit_predict_def extract_vectors_def np_array_def run_model_def custom_ops_def
        fixed_model_def format_labels_def get_centroid_documents_def group_by_label_def)
  show ?thesis
    using fp by (simp add: operate_def custom_ops_def insert_centroids_def update_documents_def)
qed

lemma init_object_is_custom:
  "init lib (ObjModel m) vfs al ds n cfg ov ol = Inr self \<Longrightarrow>
     package self = ''custom'' \<and> model self = ObjModel m"
  by (auto simp: init_def get_model_def Let_def split: option.splits list.splits sum.splits)

text \<open>
  Claim C5. With a custom model (package \<^verbatim>\<open>"custom"\<close>, which is what \<^verbatim>\<open>__init__\<close> sets
  for every model object, lemma \<open>init_object_is_custom\<close>) whose \<^verbatim>\<open>fit_predict\<close>
  returns an array whose \<^verbatim>\<open>shape[0]\<close> differs from the number of vectors, \<^verbatim>\<open>operate\<close>
  fails with \<^verbatim>\<open>ValueError("incorrect shape")\<close>, the shape mismatch error of the code,
  and the remote store has received no call.
\<close>

theorem operate_custom_wrong_length:
  assumes "package self = ''custom''" and "model self = ObjModel m"
    and "(case vector_fields_arg of None \<Rightarrow> vector_fields self | Some v \<Rightarrow> Some v) = Some (vf # rest)"
    and "np_array (extract_vectors vf fetched) = Inr vectors"
    and "m_fit_predict m vectors = Inr (NdArray labels)"
    and "shape0 labels \<noteq> length vectors"
  shows "operate self ds vector_fields_arg fetched remote =
    (Inl (ValueError ''incorrect shape''), self\<lparr>dataset_id := ds, vector_field := Some vf\<rparr>, remote)"
proof -
  have "run_model self vectors = Inl (ValueError ''incorrect shape'')"
    using assms(1,2,5,6) by (simp add: run_model_custom)
  with assms(4)
  have "fit_predict (self\<lparr>dataset_id := ds, vector_field := Some vf\<rparr>) fetched vf =
      Inl (ValueError ''incorrect shape'')"
    by (simp add: fit_predict_def)
  with assms(3) show ?thesis
    by (simp add: operate_def)
qed

theorem operate_custom_wrong_length_witness:
  "operate (custom_ops (fixed_model (NdArray (Labels1D [0, 1, 2])))) (Some ''ds'') (Some [''v''])
     [[(''_id'', Str ''a''), (''v'', Vec [0, 0])], [(''_id'', Str ''b''), (''v'', Vec [2, 2])]] [] =
   (Inl (ValueError ''incorrect shape''),
    (custom_ops (fixed_model (NdArray (Labels1D [0, 1, 2]))))\<lparr>dataset_id := Some ''ds'', vector_field := Some ''v''\<rparr>,
    [])"
proof -
  let ?m = "fixed_model (NdArray (Labels1D [0, 1, 2]))"
  have 1: "package (custom_ops ?m) = ''custom''" and 2: "model (custom_ops ?m) = ObjModel ?m"
    by (simp_all add: custom_ops_def)
  have 3: "(case Some [''v''] of None \<Rightarrow> vector_fields (custom_ops ?m) | Some v \<Rightarrow> Some v) = Some (''v'' # [])"
    by simp
  have 4: "np_array (extract_vectors ''v''
      [[(''_id'', Str ''a''), (''v'', Vec [0, 0])], [(''_id'', Str ''b''), (''v'', Vec [2, 2])]]) = Inr [[0, 0], [2, 2]]"
    by (simp add: extract_vectors_def get_field_def np_array_def)
  have 5: "m_fit_predict ?m [[0, 0], [2, 2]] = Inr (NdArray (Labels1D [0, 1, 2]))"
    by (simp add: fixed_model_def)
  have 6: "shape0 (Labels1D [0, 1, 2]) \<noteq> length [[0, 0], [2, 2 :: float64]]"
    by simp
  show ?thesis
    by (rule operate_custom_wrong_length [OF 1 2 3 4 5 6])
qed


section \<open>Alias: properties\<close>

lemma init_alias:
  "init lib model_arg vfs alias_arg ds n cfg ov ol = Inr self \<Longrightarrow>
     alias' self = get_alias (model self) (model_name self) (n_clusters self) alias_arg"
  by (auto simp: init_def Let_def split: option.splits list.splits sum.splits prod.splits)

lemma get_alias_lower:
  "\<exists>s. get_alias m name n alias_arg = lower s \<and> (\<forall>a. alias_arg = Some a \<longrightarrow> s = a)"
  by (cases alias_arg) (auto simp: get_alias_def)

text \<open>
  Claim C10 (amended). For a constructed object, the stored alias is the lowercase of
  the supplied alias, or of the generated one when none is supplied, and holds no
  uppercase letter. The centroid insert, also the one \<^verbatim>\<open>operate\<close> makes, and every
  \<^verbatim>\<open>closest\<close> or \<^verbatim>\<open>furthest\<close> query made without an alias argument use the stored
  alias. A query given an alias passes it on as it is.
\<close>

theorem alias_lowercased:
  assumes "init lib model_arg vfs alias_arg ds n cfg ov ol = Inr self"
  shows "(\<forall>a. alias_arg = Some a \<longrightarrow> alias' self = lower a) \<and>
    alias' self = get_alias (model self) (model_name self) (n_clusters self) alias_arg \<and>
    (\<forall>c\<in>set (alias' self). c \<notin> set ''ABCDEFGHIJKLMNOPQRSTUVWXYZ'') \<and>
    insert_centroids self d vf centroid_documents remote =
      remote @ [InsertCentroids d centroid_documents [vf] (alias' self)] \<and>
    (\<forall>fetched vfa. fst (operate self d vfa fetched remote) = Inr () \<longrightarrow>
       (\<exists>labelled cents f.
          snd (snd (operate self d vfa fetched remote)) =
            remote @ [UpdateDocuments d labelled, InsertCentroids d cents [f] (alias' self)])) \<and>
    closest self d qf None remote =
      remote @ [ListClosest (case d of None \<Rightarrow> dataset_id self | Some x \<Rightarrow> Some x)
                  [case qf of None \<Rightarrow> vector_field self | Some f \<Rightarrow> Some f] (alias' self)] \<and>
    furthest self d qf None remote =
      remote @ [ListFurthest (case d of None \<Rightarrow> dataset_id self | Some x \<Rightarrow> Some x)
                  [case qf of None \<Rightarrow> vector_field self | Some f \<Rightarrow> Some f] (alias' self)] \<and>
    (\<forall>b. closest self d qf (Some b) remote =
      remote @ [ListClosest (case d of None \<Rightarrow> dataset_id self | Some x \<Rightarrow> Some x)
                  [case qf of None \<Rightarrow> vector_field self | Some f \<Rightarrow> Some f] b] \<and>
      furthest self d qf (Some b) remote =
      remote @ [ListFurthest (case d of None \<Rightarrow> dataset_id self | Some x \<Rightarrow> Some x)
                  [case qf of None \<Rightarrow> vector_field self | Some f \<Rightarrow> Some f] b])"
proof -
  have al: "alias' self = get_alias (model self) (model_name self) (n_clusters self) alias_arg"
    using assms by (rule init_alias)
  obtain s where s: "alias' self = lower s" and sa: "\<forall>a. alias_arg = Some a \<longrightarrow> s = a"
    using get_alias_lower [of "model self" "model_name self" "n_clusters self" alias_arg] al
    by auto
  have up: "\<forall>c\<in>set (alias' self). c \<notin> set ''ABCDEFGHIJKLMNOPQRSTUVWXYZ''"
    unfolding s by (rule lower_no_upper)
  have op: "\<forall>fetched vfa. fst (operate self d vfa fetched remote) = Inr () \<longrightarrow>
       (\<exists>labelled cents f.
          snd (snd (operate self d vfa fetched remote)) =
            remote @ [UpdateDocuments d labelled, InsertCentroids d cents [f] (alias' self)])"
    by (auto simp: operate_def Let_def insert_centroids_def update_documents_def
        split: option.splits list.splits sum.splits prod.splits)
  have a1: "\<forall>a. alias_arg = Some a \<longrightarrow> alias' self = lower a"
    using s sa by blast
  have q: "closest self d qf None remote =
      remote @ [ListClosest (case d of None \<Rightarrow> dataset_id self | Some x \<Rightarrow> Some x)
                  [case qf of None \<Rightarrow> vector_field self | Some f \<Rightarrow> Some f] (alias' self)]"
    "furthest self d qf None remote =
      remote @ [ListFurthest (case d of None \<Rightarrow> dataset_id self | Some x \<Rightarrow> Some x)
                  [case qf of None \<Rightarrow> vector_field self | Some f \<Rightarrow> Some f] (alias' self)]"
    by (simp_all add: closest_def furthest_def)
  have e: "\<forall>b. closest self d qf (Some b) remote =
      remote @ [ListClosest (case d of None \<Rightarrow> dataset_id self | Some x \<Rightarrow> Some x)
                  [case qf of None \<Rightarrow> vector_field self | Some f \<Rightarrow> Some f] b] \<and>
      furthest self d qf (Some b) remote =
      remote @ [ListFurthest (case d of None \<Rightarrow> dataset_id self | Some x \<Rightarrow> Some x)
                  [case qf of None \<Rightarrow> vector_field self | Some f \<Rightarrow> Some f] b]"
    by (simp add: closest_def furthest_def)
  have ic: "insert_centroids self d vf centroid_documents remote =
      remote @ [InsertCentroids d centroid_documents [vf] (alias' self)]"
    by (simp add: insert_centroids_def)
  from a1 al up ic op q e show ?thesis
    by (intro conjI)
qed

lemma init_stub_kmeans:
  "init stub_library (StrModel ''KMeans'') (Some [''v'']) None None (Some 3) None (- 1) ''outlier'' =
     Inr \<lparr>vector_field = Some ''v'', vector_fields = Some [''v''],
          config = [(''n_clusters'', PyInt 3)], model_name = ''kmeans'',
          model = ObjModel
            \<lparr>class_str = ''<class 'sklearn.cluster.Stub'>'', dunder_name = None,
             attr_n_clusters = Some (PyInt 3), attr_k = None,
             m_fit_predict = (\<lambda>vectors. Inr (NdArray (Labels1D (map (\<lambda>v. 0) vectors)))),
             m_fit_labels = (\<lambda>vectors. Inl (AttributeError ''fit'')),
             m_train_assign = (\<lambda>vectors. Inl (AttributeError ''train'')),
             m_call = (\<lambda>vectors. Inl (AttributeError ''__call__''))\<rparr>,
          package = ''sklearn'', n_clusters = PyInt 3, alias' = ''kmeans-3'',
          outlier_value = - 1, outlier_label = ''outlier'', dataset_id = None\<rparr>"
proof -
  have n: "remove_char CHR ''_'' (remove_char CHR '' '' (lower ''KMeans'')) = ''kmeans''"
    by (simp add: lower_def lower_char_def remove_char_def)
  have s3: "str_int 3 = ''3''" by code_simp
  have l: "lower ''kmeans-3'' = ''kmeans-3''"
    by (simp add: lower_def lower_char_def)
  show ?thesis
    by (simp add: init_def get_model_def n Let_def construct_def stub_library_def
        get_package_def get_alias_def s3 l)
qed

theorem alias_lowercased_witness:
  "alias' (custom_ops (fixed_model NotNdArray)) = lower ''Fixed'' \<and>
   closest (custom_ops (fixed_model NotNdArray)) None None None [] =
     [ListClosest None [Some ''v''] ''fixed''] \<and>
   insert_centroids (custom_ops (fixed_model NotNdArray)) (Some ''ds'') ''v'' [] [] =
     [InsertCentroids (Some ''ds'') [] [''v''] ''fixed'']"
proof -
  let ?ops = "custom_ops (fixed_model NotNdArray)"
  have i: "init stub_library (ObjModel (fixed_model NotNdArray)) (Some [''v'']) None None None None (- 1) ''outlier'' =
     Inr ?ops"
    by (rule init_fixed_model)
  have l: "lower ''Fixed'' = ''fixed''"
    by (simp add: lower_def lower_char_def)
  have a: "alias' ?ops = ''fixed''" and f: "vector_field ?ops = Some ''v''"
    and d: "dataset_id ?ops = None"
    by (simp_all add: custom_ops_def)
  have "insert_centroids ?ops (Some ''ds'') ''v'' [] [] =
      [] @ [InsertCentroids (Some ''ds'') [] [''v''] (alias' ?ops)]"
    using alias_lowercased [OF i, where d = "Some ''ds''" and vf = "''v''"
        and centroid_documents = "[]" and remote = "[]" and qf = None]
    by (elim conjE)
  moreover have "closest ?ops None None None [] =
      [] @ [ListClosest (case None of None \<Rightarrow> dataset_id ?ops | Some x \<Rightarrow> Some x)
                  [case None of None \<Rightarrow> vector_field ?ops | Some f \<Rightarrow> Some f] (alias' ?ops)]"
    using alias_lowercased [OF i, where d = None and vf = "''v''"
        and centroid_documents = "[]" and remote = "[]" and qf = None]
    by (elim conjE)
  ultimately show ?thesis
    by (simp add: a f d l)
qed

text \<open>
  An object constructed with the alias \<^verbatim>\<open>"MyAlias"\<close> stores \<^verbatim>\<open>"myalias"\<close>, and
  \<^verbatim>\<open>closest(alias="MyAlias")\<close> queries the remote store under \<^verbatim>\<open>"MyAlias"\<close>.
\<close>

theorem closest_explicit_alias_counterexample:
  "(case init stub_library (StrModel ''KMeans'') (Some [''v'']) (Some ''MyAlias'') None (Some 3) None
          (- 1) ''outlier'' of
      Inl e \<Rightarrow> False
    | Inr self \<Rightarrow>
        alias' self = ''myalias'' \<and>
        closest self None None (Some ''MyAlias'') [] = [ListClosest None [Some ''v''] ''MyAlias''] \<and>
        furthest self None None (Some ''MyAlias'') [] = [ListFurthest None [Some ''v''] ''MyAlias''])"
proof -
  have n: "remove_char CHR ''_'' (remove_char CHR '' '' (lower ''KMeans'')) = ''kmeans''"
    by (simp add: lower_def lower_char_def remove_char_def)
  have l: "lower ''MyAlias'' = ''myalias''"
    by (simp add: lower_def lower_char_def)
  show ?thesis
    by (simp add: init_def get_model_def n Let_def construct_def stub_library_def
        get_package_def get_alias_def l closest_def furthest_def)
qed

end
